theory Spec2Isabelle
  imports Main
begin

section \<open>pypub: the chapter pipeline of \<^verbatim>\<open>pypub/chapter.py\<close>\<close>

text \<open>
  A shallow embedding of \<^verbatim>\<open>src/pypub/chapter.py\<close>. Python strings are
  \<^typ>\<open>string\<close> (code points below 256), \<^verbatim>\<open>None\<close> is \<^term>\<open>None\<close>,
  an exception is the left summand of a result, and everything the module gets from
  outside (network, parser, sanitizer, operating system) is a field of the record
  \<open>env\<close> or of the state \<open>world\<close>.
\<close>

subsection \<open>Exceptions\<close>

datatype exn =
    NoUrlError
  | ImageErrorException string
  | TypeError string
  | ValueError string
  | KeyError string
  | AttributeError
  | IOError
  | HTTPError
  | UnicodeDecodeError

text \<open>\<^verbatim>\<open>except IOError\<close> also catches the HTTP errors of urllib and requests,
  which are subclasses of it.\<close>

fun is_IOError :: "exn \<Rightarrow> bool" where
  "is_IOError IOError = True"
| "is_IOError HTTPError = True"
| "is_IOError _ = False"

fun is_KeyError :: "exn \<Rightarrow> bool" where
  "is_KeyError (KeyError k) = True"
| "is_KeyError _ = False"

subsection \<open>Strings and paths\<close>

type_synonym bytes = "char list"

text \<open>\<^verbatim>\<open>s.endswith(e)\<close>\<close>

definition endswith :: "string \<Rightarrow> string \<Rightarrow> bool" where
  "endswith s e = (length e \<le> length s \<and> drop (length s - length e) s = e)"

text \<open>\<^verbatim>\<open>s.startswith(e)\<close>\<close>

definition startswith :: "string \<Rightarrow> string \<Rightarrow> bool" where
  "startswith s e = (take (length e) s = e)"


text \<open>\<^verbatim>\<open>s.replace(old, new)\<close> for a non-empty \<open>old\<close>: the occurrences are replaced
  from the left and do not overlap. The counter skips the rest of a replaced
  occurrence.\<close>

fun replace_from :: "nat \<Rightarrow> string \<Rightarrow> string \<Rightarrow> string \<Rightarrow> string" where
  "replace_from k old new [] = []"
| "replace_from (Suc k) old new (c # cs) = replace_from k old new cs"
| "replace_from 0 old new (c # cs) =
     (if startswith (c # cs) old then new @ replace_from (length old - 1) old new cs
      else c # replace_from 0 old new cs)"

definition str_replace :: "string \<Rightarrow> string \<Rightarrow> string \<Rightarrow> string" where
  "str_replace old new s = replace_from 0 old new s"

text \<open>\<^verbatim>\<open>sep.join(xs)\<close>\<close>

fun str_join :: "string \<Rightarrow> string list \<Rightarrow> string" where
  "str_join sep [] = []"
| "str_join sep [x] = x"
| "str_join sep (x # y # ys) = x @ sep @ str_join sep (y # ys)"

text \<open>\<^verbatim>\<open>os.path.join(a, b)\<close> of posixpath, for two components.\<close>

definition os_path_join :: "string \<Rightarrow> string \<Rightarrow> string" where
  "os_path_join a b =
     (if startswith b ''/'' then b
      else if a = [] \<or> endswith a ''/'' then a @ b
      else a @ ''/'' @ b)"



text \<open>\<^verbatim>\<open>'{1:>{0}}: {2}'.format(width, line, code)\<close>: \<open>line\<close> padded with spaces on
  the left to \<open>width\<close> (never cut), a colon, a space, \<open>code\<close>.\<close>

definition format_gist_line :: "nat \<Rightarrow> string \<Rightarrow> string \<Rightarrow> string" where
  "format_gist_line width line code =
     replicate (width - length line) (CHR '' '') @ line @ '': '' @ code"

subsection \<open>The parsed tree of bs4\<close>

text \<open>
  A node is a text node or a tag. A tag carries the identity of its Python object
  (a number), its name, its attributes in document order and its children.
  A \<^verbatim>\<open>BeautifulSoup\<close> object is the list of its top-level nodes.
\<close>

datatype node =
    NavigableString string
  | Tag nat string "(string \<times> string) list" "node list"

type_synonym soup = "node list"

fun tag_id :: "node \<Rightarrow> nat option" where
  "tag_id (NavigableString s) = None"
| "tag_id (Tag i n a cs) = Some i"

fun tag_name :: "node \<Rightarrow> string" where
  "tag_name (NavigableString s) = []"
| "tag_name (Tag i n a cs) = n"

fun tag_attrs :: "node \<Rightarrow> (string \<times> string) list" where
  "tag_attrs (NavigableString s) = []"
| "tag_attrs (Tag i n a cs) = a"

fun tag_contents :: "node \<Rightarrow> node list" where
  "tag_contents (NavigableString s) = []"
| "tag_contents (Tag i n a cs) = cs"


definition tag_getitem :: "node \<Rightarrow> string \<Rightarrow> exn + string" where
  "tag_getitem t k = (case map_of (tag_attrs t) k of None \<Rightarrow> Inl (KeyError k) | Some v \<Rightarrow> Inr v)"

text \<open>The tags of a subtree in document order, the root first.\<close>

fun subtree_tags :: "node \<Rightarrow> node list" where
  "subtree_tags (NavigableString s) = []"
| "subtree_tags (Tag i n a cs) = Tag i n a cs # concat (map subtree_tags cs)"

definition descendants :: "node list \<Rightarrow> node list" where
  "descendants ns = concat (map subtree_tags ns)"

text \<open>\<^verbatim>\<open>soup.find_all(name)\<close> and \<^verbatim>\<open>soup.find(name)\<close> (also \<^verbatim>\<open>soup.title\<close>).\<close>

definition find_all :: "string \<Rightarrow> node list \<Rightarrow> node list" where
  "find_all nm ns = filter (\<lambda>t. tag_name t = nm) (descendants ns)"

definition find_tag :: "string \<Rightarrow> node list \<Rightarrow> node option" where
  "find_tag nm ns = find (\<lambda>t. tag_name t = nm) (descendants ns)"

text \<open>The \<^verbatim>\<open>class\<close> attribute is a list of words; \<^verbatim>\<open>class_=c\<close> matches a tag when
  one of the words, or the whole attribute, is \<open>c\<close>.\<close>

definition is_space :: "char \<Rightarrow> bool" where
  "is_space c = (c = CHR '' '' \<or> c = CHR 0x09 \<or> c = CHR 0x0A \<or> c = CHR 0x0C \<or> c = CHR 0x0D)"

fun split_words :: "string \<Rightarrow> string \<Rightarrow> string list" where
  "split_words acc [] = (if acc = [] then [] else [acc])"
| "split_words acc (c # cs) =
     (if is_space c then (if acc = [] then split_words [] cs else acc # split_words [] cs)
      else split_words (acc @ [c]) cs)"

definition has_class :: "string \<Rightarrow> node \<Rightarrow> bool" where
  "has_class c t =
     (case map_of (tag_attrs t) ''class'' of
        None \<Rightarrow> False
      | Some v \<Rightarrow> v = c \<or> c \<in> set (split_words [] v))"

text \<open>\<^verbatim>\<open>tag.find(name, class_=c)\<close>: the first descendant of the tag that matches.\<close>

definition find_class :: "string \<Rightarrow> string \<Rightarrow> node \<Rightarrow> node option" where
  "find_class nm c t =
     find (\<lambda>d. tag_name d = nm \<and> has_class c d) (descendants (tag_contents t))"

definition find_class_soup :: "string \<Rightarrow> string \<Rightarrow> node list \<Rightarrow> node option" where
  "find_class_soup nm c ns = find (\<lambda>d. tag_name d = nm \<and> has_class c d) (descendants ns)"

text \<open>\<^verbatim>\<open>tag.text\<close>: the text nodes of the subtree, concatenated.\<close>

fun get_text :: "node \<Rightarrow> string" where
  "get_text (NavigableString s) = s"
| "get_text (Tag i n a cs) = concat (map get_text cs)"

text \<open>\<^verbatim>\<open>tag.string\<close>: the text of a tag with a single child, followed down; \<^verbatim>\<open>None\<close>
  for a tag with no child or with several.\<close>

fun tag_string :: "node \<Rightarrow> string option" where
  "tag_string (NavigableString s) = Some s"
| "tag_string (Tag i n a []) = None"
| "tag_string (Tag i n a [c]) = tag_string c"
| "tag_string (Tag i n a (c # d # cs)) = None"

text \<open>\<^verbatim>\<open>tag.decompose()\<close>: the tag with identity \<open>i\<close> leaves the tree with its subtree.\<close>

fun decompose_node :: "nat \<Rightarrow> node \<Rightarrow> node list" where
  "decompose_node i (NavigableString s) = [NavigableString s]"
| "decompose_node i (Tag j n a cs) =
     (if i = j then [] else [Tag j n a (concat (map (decompose_node i) cs))])"

definition decompose :: "nat \<Rightarrow> node list \<Rightarrow> node list" where
  "decompose i ns = concat (map (decompose_node i) ns)"

text \<open>\<^verbatim>\<open>tag[k] = v\<close> on the tag with identity \<open>i\<close>: an attribute that is there keeps
  its place, a new one goes last.\<close>

fun attr_update :: "string \<Rightarrow> string \<Rightarrow> (string \<times> string) list \<Rightarrow> (string \<times> string) list" where
  "attr_update k v [] = [(k, v)]"
| "attr_update k v (p # ps) = (if fst p = k then (k, v) # ps else p # attr_update k v ps)"

fun setitem_node :: "nat \<Rightarrow> string \<Rightarrow> string \<Rightarrow> node \<Rightarrow> node" where
  "setitem_node i k v (NavigableString s) = NavigableString s"
| "setitem_node i k v (Tag j n a cs) =
     (if i = j then Tag j n (attr_update k v a) cs
      else Tag j n a (map (setitem_node i k v) cs))"

definition tag_setitem :: "nat \<Rightarrow> string \<Rightarrow> string \<Rightarrow> node list \<Rightarrow> node list" where
  "tag_setitem i k v ns = map (setitem_node i k v) ns"

text \<open>\<^verbatim>\<open>tag.replace_with(other)\<close>, \<open>other\<close> a \<^verbatim>\<open>BeautifulSoup\<close> object: its nodes
  take the place of the tag with identity \<open>i\<close>.\<close>

fun replace_node :: "nat \<Rightarrow> node list \<Rightarrow> node \<Rightarrow> node list" where
  "replace_node i new (NavigableString s) = [NavigableString s]"
| "replace_node i new (Tag j n a cs) =
     (if i = j then new else [Tag j n a (concat (map (replace_node i new) cs))])"

definition replace_with :: "nat \<Rightarrow> node list \<Rightarrow> node list \<Rightarrow> node list" where
  "replace_with i new ns = concat (map (replace_node i new) ns)"

subsection \<open>The world outside: files, network, libraries\<close>

text \<open>
  The state the module changes: the regular files with their contents, the
  directories, the temporary files of \<^verbatim>\<open>tempfile.mkstemp\<close> (a name space of their
  own: their names are fresh), and the number of identifiers \<^verbatim>\<open>uuid.uuid4\<close> has
  handed out.
\<close>

record world =
  files :: "string \<rightharpoonup> bytes"
  dirs :: "string set"
  tmp_files :: "bytes list"
  uuid_count :: nat

text \<open>
  What the module calls and does not define: \<^verbatim>\<open>urllib.request.urlretrieve\<close> (the
  bytes it stores, or its exception), \<^verbatim>\<open>imghdr.what\<close>, \<^verbatim>\<open>requests.get\<close> for an
  image (the \<^verbatim>\<open>content\<close> of the response, \<^term>\<open>None\<close> when the response has no
  such attribute) and for a gist (the \<^verbatim>\<open>text\<close> after \<^verbatim>\<open>raise_for_status\<close>), whether
  \<^verbatim>\<open>open(path, 'wb')\<close> succeeds, \<^verbatim>\<open>uuid.uuid4\<close>, the parser
  \<^verbatim>\<open>BeautifulSoup(s, 'html.parser')\<close> and the serializer \<^verbatim>\<open>str(soup)\<close>, the sanitizer and
  \<^verbatim>\<open>clean.html_to_xhtml\<close>, \<^verbatim>\<open>urljoin\<close>, the \<^verbatim>\<open>netloc\<close> of \<^verbatim>\<open>urlparse\<close>, the first groups
  of the matches of \<^verbatim>\<open>REGEX_DOCWRITE\<close>, \<^verbatim>\<open>codecs.decode(s, 'unicode-escape')\<close>,
  \<^verbatim>\<open>os.linesep\<close>, and whether \<^verbatim>\<open>cgi.escape\<close> could be imported.
\<close>

record env =
  urlretrieve :: "string \<Rightarrow> exn + bytes"
  imghdr_what :: "bytes \<Rightarrow> string option"
  requests_get_content :: "string \<Rightarrow> exn + bytes option"
  requests_get_text :: "string \<Rightarrow> exn + string"
  open_ok :: "string \<Rightarrow> bool"
  uuid4 :: "nat \<Rightarrow> string"
  BeautifulSoup :: "string \<Rightarrow> node list"
  soup_str :: "node list \<Rightarrow> string"
  clean_function :: "string \<Rightarrow> exn + string"
  html_to_xhtml :: "string \<Rightarrow> exn + string"
  urljoin :: "string option \<Rightarrow> string \<Rightarrow> string"
  urlparse_netloc :: "string \<Rightarrow> string"
  docwrite_finditer :: "string \<Rightarrow> string list"
  unicode_escape :: "string \<Rightarrow> exn + string"
  linesep :: string
  has_cgi_escape :: bool

text \<open>\<^verbatim>\<open>os.path.exists(p)\<close>\<close>

definition os_path_exists :: "world \<Rightarrow> string \<Rightarrow> bool" where
  "os_path_exists w p = (files w p \<noteq> None \<or> p \<in> dirs w)"

text \<open>\<^verbatim>\<open>open(p, 'wb')\<close>: an \<^verbatim>\<open>IOError\<close>, or the file is there and empty.\<close>

definition open_wb :: "env \<Rightarrow> world \<Rightarrow> string \<Rightarrow> exn + world" where
  "open_wb E w p =
     (if open_ok E p then Inr (w\<lparr>files := (files w)(p \<mapsto> [])\<rparr>) else Inl IOError)"

text \<open>\<^verbatim>\<open>f.write(data)\<close> on the file opened at \<open>p\<close>.\<close>

definition file_write :: "world \<Rightarrow> string \<Rightarrow> bytes \<Rightarrow> world" where
  "file_write w p data = w\<lparr>files := (files w)(p \<mapsto> data)\<rparr>"

text \<open>\<^verbatim>\<open>shutil.copy(src, dst)\<close>: the source is read, then the target is opened
  and written.\<close>

definition shutil_copy :: "env \<Rightarrow> world \<Rightarrow> string \<Rightarrow> string \<Rightarrow> exn + world" where
  "shutil_copy E w src dst =
     (case files w src of
        None \<Rightarrow> Inl IOError
      | Some data \<Rightarrow>
          (case open_wb E w dst of
             Inl e \<Rightarrow> Inl e
           | Inr w1 \<Rightarrow> Inr (file_write w1 dst data)))"

text \<open>\<^verbatim>\<open>tempfile.mkstemp()\<close>: a new, empty temporary file; its index is its name.\<close>

definition mkstemp :: "world \<Rightarrow> nat \<times> world" where
  "mkstemp w = (length (tmp_files w), w\<lparr>tmp_files := tmp_files w @ [Nil]\<rparr>)"

subsection \<open>\<^verbatim>\<open>get_image_type\<close> and \<^verbatim>\<open>save_image\<close>\<close>

text \<open>The list the loop of \<^verbatim>\<open>get_image_type\<close> runs over. Python joins the adjacent
  literals \<^verbatim>\<open>'.gif' '.png'\<close> into one string.\<close>

definition image_endings :: "string list" where
  "image_endings = [''jpg'', ''jpeg'', ''.gif'' @ ''.png'']"

text \<open>The \<^verbatim>\<open>else\<close> branch of the loop: the resource is fetched into a temporary file
  and \<^verbatim>\<open>imghdr\<close> names its type; an \<^verbatim>\<open>IOError\<close> gives \<^verbatim>\<open>None\<close>, any other exception
  leaves the function.\<close>

definition get_image_type_else :: "env \<Rightarrow> world \<Rightarrow> string \<Rightarrow> (exn + string option) \<times> world" where
  "get_image_type_else E w url =
     (let (temp_file_name, w1) = mkstemp w
      in case urlretrieve E url of
           Inl e \<Rightarrow> (if is_IOError e then (Inr None, w1) else (Inl e, w1))
         | Inr data \<Rightarrow>
             (Inr (imghdr_what E data),
              w1\<lparr>tmp_files := (tmp_files w1)[temp_file_name := data]\<rparr>))"

definition get_image_type :: "env \<Rightarrow> world \<Rightarrow> string \<Rightarrow> (exn + string option) \<times> world" where
  "get_image_type E w url =
     (case find (\<lambda>ending. endswith url ending) image_endings of
        Some ending \<Rightarrow> (Inr (Some ending), w)
      | None \<Rightarrow> get_image_type_else E w url)"

definition save_image :: "env \<Rightarrow> world \<Rightarrow> string \<Rightarrow> string \<Rightarrow> string \<Rightarrow> (exn + string) \<times> world" where
  "save_image E w image_url image_directory image_name =
     (case get_image_type E w image_url of
        (Inl e, w1) \<Rightarrow> (Inl e, w1)
      | (Inr None, w1) \<Rightarrow> (Inl (ImageErrorException image_url), w1)
      | (Inr (Some image_type), w1) \<Rightarrow>
          (let full_image_file_name =
                 os_path_join image_directory (image_name @ ''.'' @ image_type)
           in if os_path_exists w1 image_url then
                (case shutil_copy E w1 image_url full_image_file_name of
                   Inl e \<Rightarrow> (Inl e, w1)
                 | Inr w2 \<Rightarrow> (Inr image_type, w2))
              else
                (case open_wb E w1 full_image_file_name of
                   Inl e \<Rightarrow> (Inl (ImageErrorException image_url), w1)
                 | Inr w2 \<Rightarrow>
                     (case requests_get_content E image_url of
                        Inl e \<Rightarrow>
                          (if is_IOError e then (Inl (ImageErrorException image_url), w2)
                           else (Inl e, w2))
                      | Inr None \<Rightarrow> (Inl (ImageErrorException image_url), w2)
                      | Inr (Some content) \<Rightarrow>
                          (Inr image_type, file_write w2 full_image_file_name content)))))"

subsection \<open>\<^verbatim>\<open>_replace_image\<close>\<close>

text \<open>The \<^verbatim>\<open>image_tag\<close> argument: a tag of the tree, known by its identity, or an
  object of another type, known by \<^verbatim>\<open>str(type(image_tag))\<close>.\<close>

datatype image_tag = TagObject nat | OtherObject string

text \<open>
  The first \<^verbatim>\<open>try\<close> is the guard on the type of \<^verbatim>\<open>image_tag\<close>; its \<^verbatim>\<open>TypeError\<close> is
  raised outside the second \<^verbatim>\<open>try\<close>. In the second, the assertion on the
  \<^verbatim>\<open>images\<close> directory becomes a \<^verbatim>\<open>ValueError\<close>, an \<^verbatim>\<open>ImageErrorException\<close> or
  a \<^verbatim>\<open>TypeError\<close> of \<^verbatim>\<open>save_image\<close> removes the tag, and any other exception leaves
  the function.
\<close>

definition replace_image ::
  "env \<Rightarrow> world \<Rightarrow> soup \<Rightarrow> string \<Rightarrow> image_tag \<Rightarrow> string \<Rightarrow> string option
     \<Rightarrow> (exn + unit) \<times> world \<times> soup" where
  "replace_image E w tree image_url image_tag ebook_folder image_name_opt =
     (case image_tag of
        OtherObject ty \<Rightarrow> (Inl (TypeError (''image_tag cannot be of type '' @ ty)), w, tree)
      | TagObject i \<Rightarrow>
          (let (image_name, w0) =
                 (case image_name_opt of
                    None \<Rightarrow> (uuid4 E (uuid_count w), w\<lparr>uuid_count := Suc (uuid_count w)\<rparr>)
                  | Some nm \<Rightarrow> (nm, w));
               image_full_path = os_path_join ebook_folder ''images''
           in if \<not> os_path_exists w0 image_full_path then
                (Inl (ValueError (ebook_folder @
                   '' doesn't exist or doesn't contain a subdirectory images'')), w0, tree)
              else
                (case save_image E w0 image_url image_full_path image_name of
                   (Inr image_extension, w1) \<Rightarrow>
                     (Inr (), w1,
                      tag_setitem i ''src''
                        (''images'' @ ''/'' @ image_name @ ''.'' @ image_extension) tree)
                 | (Inl (ImageErrorException u), w1) \<Rightarrow> (Inr (), w1, decompose i tree)
                 | (Inl (TypeError m), w1) \<Rightarrow> (Inr (), w1, decompose i tree)
                 | (Inl e, w1) \<Rightarrow> (Inl e, w1, tree))))"

subsection \<open>\<^verbatim>\<open>Chapter\<close>\<close>

text \<open>An argument that the code tests with \<^verbatim>\<open>isinstance(x, str)\<close> or
  \<^verbatim>\<open>x is None\<close>: \<^verbatim>\<open>None\<close>, a string, or an object of another type.\<close>

datatype pyobj = PyNone | PyStr string | PyOther string

text \<open>\<^verbatim>\<open>cgi.escape(s, quote=True)\<close> and \<^verbatim>\<open>html.escape(s, quote=True)\<close>; the second
  also replaces the apostrophe.\<close>

definition cgi_escape :: "string \<Rightarrow> string" where
  "cgi_escape s =
     str_replace [CHR 0x22] ''&quot;''
       (str_replace ''>'' ''&gt;'' (str_replace ''<'' ''&lt;'' (str_replace ''&'' ''&amp;'' s)))"

definition html_escape :: "string \<Rightarrow> string" where
  "html_escape s =
     str_replace [CHR 0x27] ''&#x27;''
       (str_replace [CHR 0x22] ''&quot;''
         (str_replace ''>'' ''&gt;'' (str_replace ''<'' ''&lt;'' (str_replace ''&'' ''&amp;'' s))))"

record Chapter =
  title :: string
  content :: string
  content_tree :: soup
  url :: "string option"
  html_title :: string

text \<open>\<^verbatim>\<open>Chapter._validate_input_types\<close>: the four checks in the order of the source;
  it hands back the two strings it has checked.\<close>

definition validate_input_types :: "pyobj \<Rightarrow> pyobj \<Rightarrow> exn + (string \<times> string)" where
  "validate_input_types content' title' =
     (case content' of
        PyStr c \<Rightarrow>
          (case title' of
             PyStr t \<Rightarrow>
               (if t = [] then Inl (ValueError ''title cannot be empty string'')
                else if c = [] then Inl (ValueError ''content cannot be empty string'')
                else Inr (c, t))
           | _ \<Rightarrow> Inl (TypeError ''title must be a string''))
      | _ \<Rightarrow> Inl (TypeError ''content must be a string''))"

text \<open>\<^verbatim>\<open>Chapter.__init__\<close>\<close>

definition Chapter_init :: "env \<Rightarrow> pyobj \<Rightarrow> pyobj \<Rightarrow> string option \<Rightarrow> exn + Chapter" where
  "Chapter_init E content' title' url' =
     (case validate_input_types content' title' of
        Inl e \<Rightarrow> Inl e
      | Inr (c, t) \<Rightarrow>
          Inr \<lparr>title = t, content = c, content_tree = BeautifulSoup E c, url = url',
               html_title = (if has_cgi_escape E then cgi_escape t else html_escape t)\<rparr>)"


text \<open>\<^verbatim>\<open>Chapter.get_url\<close>\<close>

definition get_url :: "Chapter \<Rightarrow> exn + string" where
  "get_url self = (case url self of Some u \<Rightarrow> Inr u | None \<Rightarrow> Inl NoUrlError)"






subsection \<open>\<^verbatim>\<open>ChapterFactory.create_chapter_from_string\<close>\<close>

text \<open>
  The sanitizer and the conversion run first. With no title given, the title is the
  \<^verbatim>\<open>string\<close> of the first \<^verbatim>\<open>title\<close> tag; only the \<^verbatim>\<open>AttributeError\<close> of a missing
  tag gives the default.
\<close>

definition create_chapter_from_string ::
  "env \<Rightarrow> string \<Rightarrow> string option \<Rightarrow> pyobj \<Rightarrow> exn + Chapter" where
  "create_chapter_from_string E html_string url' title' =
     (case clean_function E html_string of
        Inl e \<Rightarrow> Inl e
      | Inr clean_html_string \<Rightarrow>
          (case html_to_xhtml E clean_html_string of
             Inl e \<Rightarrow> Inl e
           | Inr clean_xhtml_string \<Rightarrow>
               (let title2 =
                      (if title' = PyNone then
                         (case find_tag ''title'' (BeautifulSoup E html_string) of
                            None \<Rightarrow> PyStr ''Ebook Chapter''
                          | Some title_node \<Rightarrow>
                              (case tag_string title_node of
                                 None \<Rightarrow> PyNone
                               | Some s \<Rightarrow> PyStr s))
                       else title')
                in Chapter_init E (PyStr clean_xhtml_string) title2 url')))"

subsection \<open>\<^verbatim>\<open>ChapterGithubGistFactory\<close>\<close>

definition GIST_NETLOC :: string where
  "GIST_NETLOC = ''gist.github.com''"

definition GIST_BLOB_NUM :: string where
  "GIST_BLOB_NUM = ''blob-num''"

definition GIST_BLOB_CODE :: string where
  "GIST_BLOB_CODE = ''blob-code''"

definition GIST_META :: string where
  "GIST_META = ''gist-meta''"

definition GIST_PRE :: string where
  \<open>GIST_PRE = ''<pre style="font-size: 80%;">''\<close>

text \<open>The first loop of \<^verbatim>\<open>process_gist\<close>: every match is unescaped, decoded and
  added to \<^verbatim>\<open>new_content\<close>.\<close>

fun decode_matches :: "env \<Rightarrow> string list \<Rightarrow> string \<Rightarrow> exn + string" where
  "decode_matches E [] new_content = Inr new_content"
| "decode_matches E (m # ms) new_content =
     (case unicode_escape E (str_replace [CHR 0x5C, CHR ''/''] ''/'' m) of
        Inl e \<Rightarrow> Inl e
      | Inr d \<Rightarrow> decode_matches E ms (new_content @ d))"

text \<open>The loop over the rows. A row without a line-number cell raises \<^verbatim>\<open>TypeError\<close>
  (\<^verbatim>\<open>None\<close> is subscripted), a cell without the attribute \<^verbatim>\<open>KeyError\<close>, a row without
  a code cell \<^verbatim>\<open>AttributeError\<close>. \<^verbatim>\<open>last_line\<close> starts as the integer \<^verbatim>\<open>0\<close>, here
  \<^term>\<open>None\<close>.\<close>

fun gist_rows ::
  "node list \<Rightarrow> (string \<times> string) list \<Rightarrow> string option
     \<Rightarrow> exn + ((string \<times> string) list \<times> string option)" where
  "gist_rows [] lines last_line = Inr (lines, last_line)"
| "gist_rows (trow # rest) lines last_line =
     (case find_class ''td'' GIST_BLOB_NUM trow of
        None \<Rightarrow> Inl (TypeError ''NoneType object is not subscriptable'')
      | Some tdiv_line \<Rightarrow>
          (case tag_getitem tdiv_line ''data-line-number'' of
             Inl e \<Rightarrow> Inl e
           | Inr num \<Rightarrow>
               (case find_class ''td'' GIST_BLOB_CODE trow of
                  None \<Rightarrow> Inl AttributeError
                | Some tdiv_code \<Rightarrow>
                    gist_rows rest (lines @ [(num, get_text tdiv_code)]) (Some num))))"

text \<open>The loop that formats the lines; \<^verbatim>\<open>len(last_line)\<close> raises \<^verbatim>\<open>TypeError\<close> on
  the integer.\<close>

fun gist_lines :: "string option \<Rightarrow> (string \<times> string) list \<Rightarrow> exn + string list" where
  "gist_lines last_line [] = Inr []"
| "gist_lines last_line ((line, code) # rest) =
     (case last_line of
        None \<Rightarrow> Inl (TypeError ''object of type int has no len()'')
      | Some l \<Rightarrow>
          (case gist_lines last_line rest of
             Inl e \<Rightarrow> Inl e
           | Inr r \<Rightarrow> Inr (format_gist_line (length l + 1) line code # r)))"

text \<open>The list \<^verbatim>\<open>gist\<close>: the opening of the block, the lines, its end.\<close>

definition gist_block :: "(string \<times> string) list \<Rightarrow> string option \<Rightarrow> exn + string list" where
  "gist_block lines last_line =
     (case gist_lines last_line lines of
        Inl e \<Rightarrow> Inl e
      | Inr body \<Rightarrow> Inr ([GIST_PRE] @ body @ [''</pre>'']))"

text \<open>\<^verbatim>\<open>gist_soup.append(meta)\<close>: \<^verbatim>\<open>None\<close> raises a \<^verbatim>\<open>ValueError\<close>, which is passed
  over.\<close>

definition append_meta :: "soup \<Rightarrow> node option \<Rightarrow> soup" where
  "append_meta gist_soup meta = (case meta of None \<Rightarrow> gist_soup | Some m \<Rightarrow> gist_soup @ [m])"

text \<open>\<^verbatim>\<open>process_gist\<close> up to the parsed fragment: the request, the matches, the
  decoding, the parser.\<close>

definition gist_fragment :: "env \<Rightarrow> string \<Rightarrow> exn + soup" where
  "gist_fragment E gist_link =
     (case requests_get_text E gist_link of
        Inl e \<Rightarrow> Inl e
      | Inr gist_data \<Rightarrow>
          (case decode_matches E (docwrite_finditer E gist_data) [] of
             Inl e \<Rightarrow> Inl e
           | Inr new_content \<Rightarrow> Inr (BeautifulSoup E new_content)))"

definition process_gist :: "env \<Rightarrow> string \<Rightarrow> exn + soup" where
  "process_gist E gist_link =
     (case gist_fragment E gist_link of
        Inl e \<Rightarrow> Inl e
      | Inr soup \<Rightarrow>
          (case gist_rows (find_all ''tr'' soup) [] None of
             Inl e \<Rightarrow> Inl e
           | Inr (lines, last_line) \<Rightarrow>
               (case gist_block lines last_line of
                  Inl e \<Rightarrow> Inl e
                | Inr gist \<Rightarrow>
                    Inr (append_meta (BeautifulSoup E (str_join (linesep E) gist))
                           (find_class_soup ''div'' GIST_META soup)))))"

text \<open>The loop over the script tags of the gist factory's
  \<^verbatim>\<open>create_chapter_from_string\<close>. The assignment \<^verbatim>\<open>url = script['src']\<close> is to the
  parameter \<^verbatim>\<open>url\<close>; a \<^verbatim>\<open>KeyError\<close>, also one out of \<^verbatim>\<open>process_gist\<close>, goes on with
  the next tag.\<close>

fun gist_scripts_loop ::
  "env \<Rightarrow> node list \<Rightarrow> soup \<Rightarrow> string option \<Rightarrow> exn + (soup \<times> string option)" where
  "gist_scripts_loop E [] soup url' = Inr (soup, url')"
| "gist_scripts_loop E (script # rest) soup url' =
     (case tag_getitem script ''src'' of
        Inl e \<Rightarrow> (if is_KeyError e then gist_scripts_loop E rest soup url' else Inl e)
      | Inr src \<Rightarrow>
          (if urlparse_netloc E src \<noteq> GIST_NETLOC then
             gist_scripts_loop E rest soup (Some src)
           else
             (case process_gist E src of
                Inl e \<Rightarrow>
                  (if is_KeyError e then gist_scripts_loop E rest soup (Some src) else Inl e)
              | Inr gist_soup \<Rightarrow>
                  gist_scripts_loop E rest
                    (case tag_id script of
                       Some i \<Rightarrow> replace_with i gist_soup soup
                     | None \<Rightarrow> soup)
                    (Some src))))"

definition gist_create_chapter_from_string ::
  "env \<Rightarrow> string \<Rightarrow> string option \<Rightarrow> pyobj \<Rightarrow> exn + Chapter" where
  "gist_create_chapter_from_string E html_string url' title' =
     (let soup = BeautifulSoup E html_string
      in case gist_scripts_loop E (find_all ''script'' soup) soup url' of
           Inl e \<Rightarrow> Inl e
         | Inr (soup1, url1) \<Rightarrow> create_chapter_from_string E (soup_str E soup1) url1 title')"

subsection \<open>Properties of a run that the theorems speak of\<close>







text \<open>The URL of the chapter a factory returns, or the exception.\<close>

definition result_url :: "exn + Chapter \<Rightarrow> exn + string option" where
  "result_url r = map_sum id url r"

subsection \<open>Sample environments and inputs\<close>

text \<open>
  A machine without network: every request fails with an \<^verbatim>\<open>IOError\<close>, every file
  can be opened, a string parses into one text node. The other samples change some
  of its fields.
\<close>

definition offline_env :: env where
  "offline_env =
     \<lparr>urlretrieve = (\<lambda>u. Inl IOError),
      imghdr_what = (\<lambda>b. None),
      requests_get_content = (\<lambda>u. Inl IOError),
      requests_get_text = (\<lambda>u. Inl IOError),
      open_ok = (\<lambda>p. True),
      uuid4 = (\<lambda>k. ''uuid-'' @ replicate k (CHR ''x'')),
      BeautifulSoup = (\<lambda>s. [NavigableString s]),
      soup_str = (\<lambda>ns. concat (map get_text ns)),
      clean_function = Inr,
      html_to_xhtml = Inr,
      urljoin = (\<lambda>b s. s),
      urlparse_netloc = (\<lambda>u. []),
      docwrite_finditer = (\<lambda>s. []),
      unicode_escape = Inr,
      linesep = [CHR 0x0A],
      has_cgi_escape = False\<rparr>"

definition book_world :: world where
  "book_world =
     \<lparr>files = Map.empty, dirs = {''book'', ''book/images''}, tmp_files = [], uuid_count = 0\<rparr>"

text \<open>An image on a host that cannot be reached.\<close>

definition unreachable_jpg :: string where
  "unreachable_jpg = ''http://unreachable.invalid/pic.jpg''"

definition unreachable_png :: string where
  "unreachable_png = ''http://unreachable.invalid/logo.png''"

text \<open>A chapter with three images, two of them with a \<^verbatim>\<open>src\<close>.\<close>

definition images_tree :: soup where
  "images_tree =
     [Tag 1 ''p'' []
        [NavigableString ''Figures'',
         Tag 2 ''img'' [(''src'', unreachable_jpg)] [],
         Tag 3 ''img'' [(''alt'', ''none'')] [],
         Tag 4 ''img'' [(''alt'', ''logo''), (''src'', unreachable_png)] []]]"


text \<open>The fragment a gist script writes: three rows, numbered 10 to 12, and the
  attribution.\<close>

definition gist_row :: "nat \<Rightarrow> string \<Rightarrow> string \<Rightarrow> node" where
  "gist_row i num code =
     Tag i ''tr'' []
       [Tag (i + 1) ''td'' [(''class'', ''blob-num js-line-number''), (''data-line-number'', num)] [],
        Tag (i + 2) ''td'' [(''class'', ''blob-code blob-code-inner'')] [NavigableString code]]"

definition gist_sample_soup :: soup where
  "gist_sample_soup =
     [Tag 1 ''table'' []
        [gist_row 10 ''10'' ''a'', gist_row 20 ''11'' ''b'', gist_row 30 ''12'' ''c''],
      Tag 2 ''div'' [(''class'', ''gist-meta'')] [NavigableString ''view raw'']]"

definition gist_link_sample :: string where
  "gist_link_sample = ''https://gist.github.com/user/0123.js''"

definition gist_env :: env where
  "gist_env =
     offline_env
       \<lparr>requests_get_text := (\<lambda>u. Inr ''document.write(FRAGMENT)''),
        docwrite_finditer := (\<lambda>s. [''FRAGMENT'']),
        BeautifulSoup := (\<lambda>s. if s = ''FRAGMENT'' then gist_sample_soup else [NavigableString s])\<rparr>"

text \<open>A page with a script of another host.\<close>

definition page_html :: string where
  "page_html = ''<script src=https://cdn.example.com/app.js></script><p>Hello</p>''"

definition page_url :: string where
  "page_url = ''http://example.com/page''"

definition script_src :: string where
  "script_src = ''https://cdn.example.com/app.js''"

definition page_env :: env where
  "page_env =
     offline_env
       \<lparr>BeautifulSoup :=
          (\<lambda>s. if s = page_html
                then [Tag 1 ''script'' [(''src'', script_src)] [],
                      Tag 2 ''p'' [] [NavigableString ''Hello'']]
                else [NavigableString s]),
        urlparse_netloc := (\<lambda>u. if u = script_src then ''cdn.example.com'' else [])\<rparr>"

text \<open>A page whose \<^verbatim>\<open>title\<close> element is empty.\<close>

definition untitled_html :: string where
  "untitled_html = ''<html><head><title></title></head><body><p>Text</p></body></html>''"

definition untitled_env :: env where
  "untitled_env =
     offline_env
       \<lparr>BeautifulSoup :=
          (\<lambda>s. if s = untitled_html
                then [Tag 1 ''html'' []
                        [Tag 2 ''head'' [] [Tag 3 ''title'' [] []],
                         Tag 4 ''body'' [] [Tag 5 ''p'' [] [NavigableString ''Text'']]]]
                else [NavigableString s])\<rparr>"

section \<open>Properties\<close>

subsection \<open>Strings\<close>



lemma find_image_endings_None:
  "\<not> endswith u ''jpg'' \<Longrightarrow> \<not> endswith u ''jpeg'' \<Longrightarrow> \<not> endswith u ''.gif.png''
   \<Longrightarrow> find (\<lambda>ending. endswith u ending) image_endings = None"
  by (simp add: image_endings_def)

subsection \<open>Type detection\<close>

text \<open>
  Claim C5. A URL that ends in \<^verbatim>\<open>.png\<close> or \<^verbatim>\<open>.gif\<close>, and in none of \<^verbatim>\<open>jpg\<close>,
  \<^verbatim>\<open>jpeg\<close> and the eight characters \<^verbatim>\<open>.gif.png\<close>, is matched by no ending of the
  loop of \<^verbatim>\<open>get_image_type\<close>: the function takes its \<^verbatim>\<open>else\<close> branch, which
  fetches the resource and returns what \<^verbatim>\<open>imghdr.what\<close> says of the bytes
  (\<^verbatim>\<open>None\<close> when the fetch raises an \<^verbatim>\<open>IOError\<close>).
\<close>

theorem get_image_type_png_gif_falls_back:
  assumes "endswith u ''.png'' \<or> endswith u ''.gif''"
    and "\<not> endswith u ''jpg''" and "\<not> endswith u ''jpeg''" and "\<not> endswith u ''.gif.png''"
  shows "get_image_type E w u = get_image_type_else E w u \<and>
         fst (get_image_type E w u) =
           (case urlretrieve E u of
              Inr data \<Rightarrow> Inr (imghdr_what E data)
            | Inl e \<Rightarrow> if is_IOError e then Inr None else Inl e)"
  using assms(2-4)
  by (simp add: get_image_type_def find_image_endings_None get_image_type_else_def mkstemp_def
      split: sum.splits)

theorem get_image_type_png_gif_falls_back_witness:
  "(endswith unreachable_png ''.png'' \<or> endswith unreachable_png ''.gif'') \<and>
   \<not> endswith unreachable_png ''jpg'' \<and> \<not> endswith unreachable_png ''jpeg'' \<and>
   \<not> endswith unreachable_png ''.gif.png'' \<and>
   get_image_type offline_env book_world unreachable_png =
     get_image_type_else offline_env book_world unreachable_png \<and>
   fst (get_image_type offline_env book_world unreachable_png) = Inr None"
proof -
  have a: "endswith unreachable_png ''.png'' \<or> endswith unreachable_png ''.gif''"
    by (simp add: endswith_def unreachable_png_def)
  have b: "\<not> endswith unreachable_png ''jpg''" by (simp add: endswith_def unreachable_png_def)
  have c: "\<not> endswith unreachable_png ''jpeg''" by (simp add: endswith_def unreachable_png_def)
  have d: "\<not> endswith unreachable_png ''.gif.png''" by (simp add: endswith_def unreachable_png_def)
  have e: "urlretrieve offline_env unreachable_png = Inl IOError" by (simp add: offline_env_def)
  note t = get_image_type_png_gif_falls_back [OF a b c d, of offline_env book_world]
  from t have t1: "get_image_type offline_env book_world unreachable_png =
      get_image_type_else offline_env book_world unreachable_png"
    by (rule conjunct1)
  from t have "fst (get_image_type offline_env book_world unreachable_png) =
      (case urlretrieve offline_env unreachable_png of
         Inr data \<Rightarrow> Inr (imghdr_what offline_env data)
       | Inl e \<Rightarrow> if is_IOError e then Inr None else Inl e)"
    by (rule conjunct2)
  then have t2: "fst (get_image_type offline_env book_world unreachable_png) = Inr None"
    by (simp add: e)
  from a b c d t1 t2 show ?thesis by blast
qed

subsection \<open>Construction, persistence and the URL of a chapter\<close>





text \<open>
  Claim C9. \<^verbatim>\<open>get_url\<close> on a chapter constructed with a URL returns that URL,
  on a chapter constructed without one it raises \<^verbatim>\<open>NoUrlError\<close>; its result is
  always one of the two: the URL the chapter holds, or the exception.
\<close>

theorem get_url_supplied_or_NoUrlError:
  "(Chapter_init E cnt ttl (Some u) = Inr c \<longrightarrow> get_url c = Inr u) \<and>
   (Chapter_init E cnt ttl None = Inr c \<longrightarrow> get_url c = Inl NoUrlError) \<and>
   (get_url c = Inl NoUrlError \<and> url c = None \<or> (\<exists>v. url c = Some v \<and> get_url c = Inr v))"
  by (auto simp: Chapter_init_def get_url_def split: sum.splits option.splits)

theorem get_url_supplied_or_NoUrlError_witness:
  "Chapter_init offline_env (PyStr ''<p>Hi</p>'') (PyStr ''One'') (Some page_url) =
     Inr \<lparr>title = ''One'', content = ''<p>Hi</p>'', content_tree = [NavigableString ''<p>Hi</p>''],
          url = Some page_url, html_title = ''One''\<rparr> \<and>
   get_url \<lparr>title = ''One'', content = ''<p>Hi</p>'', content_tree = [NavigableString ''<p>Hi</p>''],
          url = Some page_url, html_title = ''One''\<rparr> = Inr page_url \<and>
   Chapter_init offline_env (PyStr ''<p>Hi</p>'') (PyStr ''One'') None =
     Inr \<lparr>title = ''One'', content = ''<p>Hi</p>'', content_tree = [NavigableString ''<p>Hi</p>''],
          url = None, html_title = ''One''\<rparr> \<and>
   get_url \<lparr>title = ''One'', content = ''<p>Hi</p>'', content_tree = [NavigableString ''<p>Hi</p>''],
          url = None, html_title = ''One''\<rparr> = Inl NoUrlError"
proof -
  have a: "Chapter_init offline_env (PyStr ''<p>Hi</p>'') (PyStr ''One'') (Some page_url) =
     Inr \<lparr>title = ''One'', content = ''<p>Hi</p>'', content_tree = [NavigableString ''<p>Hi</p>''],
          url = Some page_url, html_title = ''One''\<rparr>"
    by (simp add: Chapter_init_def validate_input_types_def offline_env_def html_escape_def
        str_replace_def startswith_def)
  have b: "Chapter_init offline_env (PyStr ''<p>Hi</p>'') (PyStr ''One'') None =
     Inr \<lparr>title = ''One'', content = ''<p>Hi</p>'', content_tree = [NavigableString ''<p>Hi</p>''],
          url = None, html_title = ''One''\<rparr>"
    by (simp add: Chapter_init_def validate_input_types_def offline_env_def html_escape_def
        str_replace_def startswith_def)
  from a b
    get_url_supplied_or_NoUrlError [of offline_env "PyStr ''<p>Hi</p>''" "PyStr ''One''" page_url
      "\<lparr>title = ''One'', content = ''<p>Hi</p>'', content_tree = [NavigableString ''<p>Hi</p>''],
          url = Some page_url, html_title = ''One''\<rparr>"]
    get_url_supplied_or_NoUrlError [of offline_env "PyStr ''<p>Hi</p>''" "PyStr ''One''" page_url
      "\<lparr>title = ''One'', content = ''<p>Hi</p>'', content_tree = [NavigableString ''<p>Hi</p>''],
          url = None, html_title = ''One''\<rparr>"]
  show ?thesis by blast
qed

subsection \<open>The factories\<close>

text \<open>
  Claim C10. When the first \<^verbatim>\<open>title\<close> element of the source string is empty and no
  title is given, \<^verbatim>\<open>ChapterFactory.create_chapter_from_string\<close> (the sanitizer and
  the conversion having returned) does not use the default title: the title it
  infers is \<^verbatim>\<open>None\<close>, and the constructor raises the \<^verbatim>\<open>TypeError\<close> of a title that
  is not a string.
\<close>

theorem create_chapter_empty_title_element:
  assumes "find_tag ''title'' (BeautifulSoup E html_string) = Some (Tag i ''title'' a [])"
    and "clean_function E html_string = Inr s1"
    and "html_to_xhtml E s1 = Inr s2"
  shows "create_chapter_from_string E html_string u PyNone =
           Inl (TypeError ''title must be a string'')"
  using assms
  by (simp add: create_chapter_from_string_def Chapter_init_def validate_input_types_def)

theorem create_chapter_empty_title_element_witness:
  "find_tag ''title'' (BeautifulSoup untitled_env untitled_html) = Some (Tag 3 ''title'' [] []) \<and>
   clean_function untitled_env untitled_html = Inr untitled_html \<and>
   html_to_xhtml untitled_env untitled_html = Inr untitled_html \<and>
   create_chapter_from_string untitled_env untitled_html None PyNone =
     Inl (TypeError ''title must be a string'')"
proof -
  have a: "find_tag ''title'' (BeautifulSoup untitled_env untitled_html) = Some (Tag 3 ''title'' [] [])"
    by (simp add: untitled_env_def offline_env_def find_tag_def descendants_def)
  have b: "clean_function untitled_env untitled_html = Inr untitled_html"
    by (simp add: untitled_env_def offline_env_def)
  have c: "html_to_xhtml untitled_env untitled_html = Inr untitled_html"
    by (simp add: untitled_env_def offline_env_def)
  from a b c create_chapter_empty_title_element [OF a b c, of None]
  show ?thesis by blast
qed

text \<open>
  Claim C2. The gist factory should hand the URL of the caller to the pipeline. On
  the sample page, whose only script has a \<^verbatim>\<open>src\<close> on another host, the loop has
  assigned that \<^verbatim>\<open>src\<close> to \<^verbatim>\<open>url\<close>, and the chapter returned holds it in place of
  the URL supplied.
\<close>

theorem gist_factory_url_is_script_src:
  "result_url (gist_create_chapter_from_string page_env page_html (Some page_url) (PyStr ''Page'')) =
     Inr (Some script_src) \<and> script_src \<noteq> page_url"
  by (simp add: result_url_def gist_create_chapter_from_string_def page_env_def offline_env_def
      find_all_def descendants_def tag_getitem_def GIST_NETLOC_def script_src_def page_url_def
      create_chapter_from_string_def Chapter_init_def validate_input_types_def)

subsection \<open>Saving an image\<close>








subsection \<open>Replacing one image\<close>

text \<open>
  Claim C4, as amended. For an \<^verbatim>\<open>image_tag\<close> that is not a tag object,
  \<^verbatim>\<open>_replace_image\<close> raises the \<^verbatim>\<open>TypeError\<close> of its guard: the tree and the world are
  as before, and the exception goes to the caller. For a tag, with the \<^verbatim>\<open>images\<close>
  directory there, a resolution that raises the image-fetch error removes the tag
  and the function returns normally, with a name given and with a generated one.
\<close>

theorem replace_image_guard_and_failure:
  "replace_image E w tree image_url (OtherObject ty) ebook_folder image_name =
     (Inl (TypeError (''image_tag cannot be of type '' @ ty)), w, tree) \<and>
   (os_path_exists w (os_path_join ebook_folder ''images'') \<and>
    save_image E w image_url (os_path_join ebook_folder ''images'') nm =
      (Inl (ImageErrorException u), w1) \<longrightarrow>
    replace_image E w tree image_url (TagObject i) ebook_folder (Some nm) =
      (Inr (), w1, decompose i tree)) \<and>
   (os_path_exists w (os_path_join ebook_folder ''images'') \<and>
    save_image E (w\<lparr>uuid_count := Suc (uuid_count w)\<rparr>) image_url
        (os_path_join ebook_folder ''images'') (uuid4 E (uuid_count w)) =
      (Inl (ImageErrorException u), w1) \<longrightarrow>
    replace_image E w tree image_url (TagObject i) ebook_folder None =
      (Inr (), w1, decompose i tree))"
  by (auto simp: replace_image_def Let_def os_path_exists_def)

theorem replace_image_guard_and_failure_witness:
  "os_path_exists book_world (os_path_join ''book'' ''images'') \<and>
   save_image offline_env book_world unreachable_jpg (os_path_join ''book'' ''images'') ''cover'' =
     (Inl (ImageErrorException unreachable_jpg),
      book_world\<lparr>files := (files book_world)(''book/images/cover.jpg'' \<mapsto> [])\<rparr>) \<and>
   replace_image offline_env book_world images_tree unreachable_jpg (TagObject 2) ''book''
       (Some ''cover'') =
     (Inr (), book_world\<lparr>files := (files book_world)(''book/images/cover.jpg'' \<mapsto> [])\<rparr>,
      decompose 2 images_tree) \<and>
   replace_image offline_env book_world images_tree unreachable_jpg
       (OtherObject ''<class 'str'>'') ''book'' (Some ''cover'') =
     (Inl (TypeError (''image_tag cannot be of type '' @ ''<class 'str'>'')), book_world, images_tree)"
proof -
  have j: "os_path_join ''book'' ''images'' = ''book/images''"
    by (simp add: os_path_join_def startswith_def endswith_def)
  have a: "os_path_exists book_world (os_path_join ''book'' ''images'')"
    by (simp add: j os_path_exists_def book_world_def)
  have b: "save_image offline_env book_world unreachable_jpg (os_path_join ''book'' ''images'')
       ''cover'' =
     (Inl (ImageErrorException unreachable_jpg),
      book_world\<lparr>files := (files book_world)(''book/images/cover.jpg'' \<mapsto> [])\<rparr>)"
    by (simp add: j save_image_def get_image_type_def image_endings_def endswith_def
        unreachable_jpg_def os_path_join_def startswith_def os_path_exists_def book_world_def
        open_wb_def offline_env_def)
  from a b
    replace_image_guard_and_failure [of offline_env book_world images_tree unreachable_jpg
      "''<class 'str'>''" "''book''" "Some ''cover''" "''cover''" unreachable_jpg
      "book_world\<lparr>files := (files book_world)(''book/images/cover.jpg'' \<mapsto> [])\<rparr>" 2]
  show ?thesis by blast
qed

text \<open>
  The claim as it was stated fails: handed a string in place of a tag, the function
  raises and removes nothing.
\<close>

theorem replace_image_not_a_tag_raises:
  "replace_image offline_env book_world images_tree unreachable_jpg
      (OtherObject ''<class 'str'>'') ''book'' None =
     (Inl (TypeError ''image_tag cannot be of type <class 'str'>''), book_world, images_tree)"
  by (simp add: replace_image_def)

subsection \<open>Rendering a gist\<close>

text \<open>The loop over the rows appends its pairs to the list, and \<^verbatim>\<open>last_line\<close> is the
  line number of the last pair it has appended.\<close>

lemma gist_rows_last:
  "gist_rows rs ls l = Inr (ls', l') \<Longrightarrow>
     \<exists>new. ls' = ls @ new \<and> (if new = [] then l' = l else l' = Some (fst (last new)))"
proof (induction rs arbitrary: ls l)
  case Nil
  then show ?case by simp
next
  case (Cons trow rest)
  from Cons.prems obtain tdiv_line num tdiv_code where
    step: "gist_rows rest (ls @ [(num, get_text tdiv_code)]) (Some num) = Inr (ls', l')"
    by (auto split: option.splits sum.splits)
  from Cons.IH [OF step] obtain new where
    new: "ls' = (ls @ [(num, get_text tdiv_code)]) @ new"
      "if new = [] then l' = Some num else l' = Some (fst (last new))"
    by blast
  show ?case
  proof (intro exI conjI)
    show "ls' = ls @ ((num, get_text tdiv_code) # new)" using new(1) by simp
    show "if (num, get_text tdiv_code) # new = [] then l' = l
          else l' = Some (fst (last ((num, get_text tdiv_code) # new)))"
      using new(2) by (simp split: if_splits)
  qed
qed

lemma gist_sample_fragment: "gist_fragment gist_env gist_link_sample = Inr gist_sample_soup"
  by (simp add: gist_fragment_def gist_env_def offline_env_def str_replace_def startswith_def)

lemma gist_sample_rows:
  "gist_rows (find_all ''tr'' gist_sample_soup) [] None =
     Inr ([(''10'', ''a''), (''11'', ''b''), (''12'', ''c'')], Some ''12'')"
  by (simp add: gist_sample_soup_def gist_row_def find_all_def descendants_def find_class_def
      has_class_def is_space_def GIST_BLOB_NUM_def GIST_BLOB_CODE_def tag_getitem_def)

text \<open>
  Claim C1, as amended. When the rows of the fetched fragment give the pairs
  \<^verbatim>\<open>("10","a")\<close>, \<^verbatim>\<open>("11","b")\<close>, \<^verbatim>\<open>("12","c")\<close>, \<^verbatim>\<open>process_gist\<close> renders, between the
  opening and the end of a \<^verbatim>\<open>pre\<close> block, exactly the three lines \<^verbatim>\<open>" 10: a"\<close>,
  \<^verbatim>\<open>" 11: b"\<close>, \<^verbatim>\<open>" 12: c"\<close> in that order: each line number is right-aligned to the
  number of characters of the last line number plus one, so a space precedes it.
  The text is parsed and the attribution, if any, appended.
\<close>

theorem process_gist_three_rows:
  assumes frag: "gist_fragment E gist_link = Inr soup"
    and rows: "gist_rows (find_all ''tr'' soup) [] None =
                 Inr ([(''10'', ''a''), (''11'', ''b''), (''12'', ''c'')], last_line)"
  shows "process_gist E gist_link =
           Inr (append_meta
                  (BeautifulSoup E
                     (str_join (linesep E)
                        [GIST_PRE, '' 10: a'', '' 11: b'', '' 12: c'', ''</pre>'']))
                  (find_class_soup ''div'' GIST_META soup))"
proof -
  from gist_rows_last [OF rows] have l: "last_line = Some ''12''"
    by (auto split: if_splits)
  show ?thesis
    by (simp add: process_gist_def frag rows l gist_block_def format_gist_line_def)
qed

theorem process_gist_three_rows_witness:
  "gist_fragment gist_env gist_link_sample = Inr gist_sample_soup \<and>
   gist_rows (find_all ''tr'' gist_sample_soup) [] None =
     Inr ([(''10'', ''a''), (''11'', ''b''), (''12'', ''c'')], Some ''12'') \<and>
   process_gist gist_env gist_link_sample =
     Inr (append_meta
            (BeautifulSoup gist_env
               (str_join (linesep gist_env)
                  [GIST_PRE, '' 10: a'', '' 11: b'', '' 12: c'', ''</pre>'']))
            (find_class_soup ''div'' GIST_META gist_sample_soup))"
  using gist_sample_fragment gist_sample_rows
    process_gist_three_rows [OF gist_sample_fragment gist_sample_rows]
  by blast

text \<open>
  The claim as it was stated fails: on the sample gist, whose rows give these pairs,
  what \<^verbatim>\<open>process_gist\<close> returns is not the block with the lines \<^verbatim>\<open>"10: a"\<close>,
  \<^verbatim>\<open>"11: b"\<close>, \<^verbatim>\<open>"12: c"\<close> of width two.
\<close>

theorem process_gist_width_is_digits_plus_one:
  "gist_rows (find_all ''tr'' gist_sample_soup) [] None =
     Inr ([(''10'', ''a''), (''11'', ''b''), (''12'', ''c'')], Some ''12'') \<and>
   process_gist gist_env gist_link_sample \<noteq>
     Inr (append_meta
            (BeautifulSoup gist_env
               (str_join (linesep gist_env)
                  [GIST_PRE, ''10: a'', ''11: b'', ''12: c'', ''</pre>'']))
            (find_class_soup ''div'' GIST_META gist_sample_soup))"
proof -
  have "process_gist gist_env gist_link_sample =
     Inr (append_meta
            (BeautifulSoup gist_env
               (str_join (linesep gist_env)
                  [GIST_PRE, '' 10: a'', '' 11: b'', '' 12: c'', ''</pre>'']))
            (find_class_soup ''div'' GIST_META gist_sample_soup))"
    by (simp add: process_gist_def gist_sample_fragment gist_sample_rows gist_block_def
        format_gist_line_def)
  then show ?thesis
    by (simp add: gist_sample_rows gist_env_def offline_env_def append_meta_def GIST_PRE_def
        split: option.splits)
qed

subsection \<open>The rewrite of the images of a chapter\<close>
























text \<open>A host that cannot be reached makes \<^verbatim>\<open>save_image\<close> raise the image-fetch error:
  both fetches raise an \<^verbatim>\<open>IOError\<close>, and the URL is no local path.\<close>

lemma save_image_unreachable:
  assumes "urlretrieve E u = Inl IOError" and "requests_get_content E u = Inl IOError"
    and "\<not> os_path_exists w u"
  shows "\<exists>w'. save_image E w u d n = (Inl (ImageErrorException u), w')"
proof (cases "find (\<lambda>ending. endswith u ending) image_endings")
  case None
  with assms(1) show ?thesis
    by (simp add: save_image_def get_image_type_def get_image_type_else_def mkstemp_def)
next
  case (Some t)
  then have g: "get_image_type E w u = (Inr (Some t), w)" by (simp add: get_image_type_def)
  show ?thesis
  proof (cases "open_ok E (os_path_join d (n @ ''.'' @ t))")
    case True
    with g assms show ?thesis by (simp add: save_image_def open_wb_def)
  next
    case False
    with g assms show ?thesis by (simp add: save_image_def open_wb_def)
  qed
qed





end
